theory Spec2Isabelle
  imports Main "HOL-Library.AList"
begin

section \<open>Python values and exceptions\<close>

text \<open>
  The module \<^verbatim>\<open>telegram/ext/_callbackcontext.py\<close> defines one class, \<^verbatim>\<open>CallbackContext\<close>.
  Python checks no type annotation at run time, and \<^verbatim>\<open>update\<close> stores any object under any
  name, so every attribute of a context holds a value of one type of Python objects.
  A job carries the two fields \<^verbatim>\<open>from_job\<close> reads.
\<close>

record Job =
  chat_id :: "int option"
  user_id :: "int option"
  name :: string

text \<open>
  The objects of the model: \<^verbatim>\<open>None\<close>, integers, strings, lists, tuples, dictionaries (the
  default type of bot, chat and user data, \<^verbatim>\<open>CallbackContext[ExtBot, Dict, Dict, Dict]\<close>),
  regular-expression matches (the matched text and its groups), jobs, the owning
  application, and any other object whose class defines none of \<^verbatim>\<open>__bool__\<close>,
  \<^verbatim>\<open>__len__\<close>, \<^verbatim>\<open>__getitem__\<close> and \<^verbatim>\<open>__iter__\<close> (an exception, a coroutine), known by
  its identity. A dictionary is held by its contents, in insertion order: no function of
  the module changes the contents of one or compares two by identity.
\<close>

datatype pyval =
    PyNone
  | PyInt int
  | PyStr string
  | PyList "pyval list"
  | PyTuple "pyval list"
  | PyDict "(pyval \<times> pyval) list"
  | PyMatch string "string option list"
  | PyJob Job
  | PyApp
  | PyObj nat

text \<open>The exception classes the module raises or catches.\<close>

datatype py_error = AttributeError | RuntimeError | KeyError | IndexError | TypeError

text \<open>Truth value testing, as \<^verbatim>\<open>if x:\<close> does it.\<close>

fun py_truthy :: "pyval \<Rightarrow> bool" where
  "py_truthy PyNone = False"
| "py_truthy (PyInt i) = (i \<noteq> 0)"
| "py_truthy (PyStr s) = (s \<noteq> [])"
| "py_truthy (PyList xs) = (xs \<noteq> [])"
| "py_truthy (PyTuple xs) = (xs \<noteq> [])"
| "py_truthy (PyDict kvs) = (kvs \<noteq> [])"
| "py_truthy (PyMatch s gs) = True"
| "py_truthy (PyJob j) = True"
| "py_truthy PyApp = True"
| "py_truthy (PyObj n) = True"

text \<open>
  Subscription \<^verbatim>\<open>x[i]\<close> with an integer \<^verbatim>\<open>i\<close>. A sequence counts a negative index from
  its end and raises \<^verbatim>\<open>IndexError\<close> out of range; a dictionary looks the key up and raises
  \<^verbatim>\<open>KeyError\<close>; a match returns group \<^verbatim>\<open>i\<close>; anything else is not subscriptable.
\<close>

definition seq_getitem :: "'a list \<Rightarrow> int \<Rightarrow> py_error + 'a" where
  "seq_getitem xs i =
     (let n = int (length xs); j = (if i < 0 then i + n else i)
      in if 0 \<le> j \<and> j < n then Inr (xs ! nat j) else Inl IndexError)"

fun py_getitem :: "pyval \<Rightarrow> int \<Rightarrow> py_error + pyval" where
  "py_getitem (PyList xs) i = seq_getitem xs i"
| "py_getitem (PyTuple xs) i = seq_getitem xs i"
| "py_getitem (PyStr s) i =
     (case seq_getitem s i of Inl e \<Rightarrow> Inl e | Inr ch \<Rightarrow> Inr (PyStr [ch]))"
| "py_getitem (PyDict kvs) i =
     (case map_of kvs (PyInt i) of None \<Rightarrow> Inl KeyError | Some v \<Rightarrow> Inr v)"
| "py_getitem (PyMatch s gs) i =
     (if i = 0 then Inr (PyStr s)
      else if 1 \<le> i \<and> i \<le> int (length gs)
        then Inr (case gs ! nat (i - 1) of None \<Rightarrow> PyNone | Some g \<Rightarrow> PyStr g)
      else Inl IndexError)"
| "py_getitem PyNone i = Inl TypeError"
| "py_getitem (PyInt n) i = Inl TypeError"
| "py_getitem (PyJob j) i = Inl TypeError"
| "py_getitem PyApp i = Inl TypeError"
| "py_getitem (PyObj n) i = Inl TypeError"

text \<open>Iteration, as the call \<^verbatim>\<open>f(*x)\<close> unpacks \<^verbatim>\<open>x\<close>.\<close>

fun py_unpack :: "pyval \<Rightarrow> py_error + pyval list" where
  "py_unpack (PyList xs) = Inr xs"
| "py_unpack (PyTuple xs) = Inr xs"
| "py_unpack (PyStr s) = Inr (map (\<lambda>ch. PyStr [ch]) s)"
| "py_unpack (PyDict kvs) = Inr (map fst kvs)"
| "py_unpack PyNone = Inl TypeError"
| "py_unpack (PyInt n) = Inl TypeError"
| "py_unpack (PyMatch s gs) = Inl TypeError"
| "py_unpack (PyJob j) = Inl TypeError"
| "py_unpack PyApp = Inl TypeError"
| "py_unpack (PyObj n) = Inl TypeError"

section \<open>The collaborators of the context\<close>

text \<open>
  A callback query has an identifying token, its \<^verbatim>\<open>id\<close>. The cache of callback data has
  a query index, from the token of a callback query to the key of the cached payload,
  and a data index, from that key to the payload.
\<close>

datatype CallbackQuery = CallbackQuery (id_CallbackQuery: string)

record CallbackDataCache =
  query_index :: "string \<rightharpoonup> string"
  data_index :: "string \<rightharpoonup> pyval"

text \<open>
  Modelled from the spec: \<^verbatim>\<open>CallbackDataCache.drop_data\<close>, which is defined in another
  module of the library. It fails with \<^verbatim>\<open>KeyError\<close> (the spec's NotFoundError) when
  the token of the callback query is not in the query index; otherwise it removes the
  payload from the data index, where a missing entry is ignored. The spec does not say
  what becomes of the entry of the query index, and the model leaves that index as it is.
\<close>

definition drop_data :: "CallbackDataCache \<Rightarrow> CallbackQuery \<Rightarrow> py_error + CallbackDataCache" where
  "drop_data cache callback_query =
     (case query_index cache (id_CallbackQuery callback_query) of
        None \<Rightarrow> Inl KeyError
      | Some key \<Rightarrow> Inr (cache\<lparr>data_index := (data_index cache)(key := None)\<rparr>))"

text \<open>
  The bot of an application is a plain \<^verbatim>\<open>telegram.Bot\<close> or a \<^verbatim>\<open>telegram.ext.ExtBot\<close>, which
  has the flag \<^verbatim>\<open>arbitrary_callback_data\<close> and the cache \<^verbatim>\<open>callback_data_cache\<close>.
\<close>

datatype Bot =
    Bot
  | ExtBot (arbitrary_callback_data: bool) (callback_data_cache: CallbackDataCache)

text \<open>
  A persistence backend: the three flags of its \<^verbatim>\<open>store_data\<close>. The backend's hooks
  are outside the module; a call of one is recorded with its arguments.
\<close>

record Persistence =
  store_bot_data :: bool
  store_chat_data :: bool
  store_user_data :: bool

datatype hook_call =
    Refresh_bot_data pyval
  | Refresh_chat_data pyval pyval
  | Refresh_user_data pyval pyval

text \<open>
  The application, as far as the context reads it: its bot, its bot data, its stores of
  chat data and user data by id, and its persistence backend, \<^verbatim>\<open>None\<close> when there is none.
\<close>

record Application =
  app_bot :: Bot
  app_bot_data :: pyval
  app_chat_data :: "int \<rightharpoonup> pyval"
  app_user_data :: "int \<rightharpoonup> pyval"
  app_persistence :: "Persistence option"

text \<open>
  Modelled from the spec: the lookup in the stores \<^verbatim>\<open>application.chat_data\<close> and
  \<^verbatim>\<open>application.user_data\<close>, which the class of the application defines in another
  module of the library. The spec gives it create-if-absent semantics: \<^verbatim>\<open>store[k]\<close>
  returns the entry of \<^verbatim>\<open>k\<close>, and an id without an entry gets a new one first, an
  empty dictionary by default.
\<close>

definition store_getitem :: "(int \<rightharpoonup> pyval) \<Rightarrow> int \<Rightarrow> pyval \<times> (int \<rightharpoonup> pyval)" where
  "store_getitem store k =
     (case store k of
        Some d \<Rightarrow> (d, store)
      | None \<Rightarrow> (PyDict [], store(k \<mapsto> PyDict [])))"

definition chat_data_getitem :: "Application \<Rightarrow> int \<Rightarrow> pyval \<times> Application" where
  "chat_data_getitem app k =
     (let (d, store) = store_getitem (app_chat_data app) k
      in (d, app\<lparr>app_chat_data := store\<rparr>))"

definition user_data_getitem :: "Application \<Rightarrow> int \<Rightarrow> pyval \<times> Application" where
  "user_data_getitem app k =
     (let (d, store) = store_getitem (app_user_data app) k
      in (d, app\<lparr>app_user_data := store\<rparr>))"

text \<open>
  The argument \<^verbatim>\<open>update\<close> of the constructors is any object; when it is a
  \<^verbatim>\<open>telegram.Update\<close>, it has an effective chat and an effective user, each of them an
  object with an \<^verbatim>\<open>id\<close>, or \<^verbatim>\<open>None\<close>. The classes of chats and users define neither
  \<^verbatim>\<open>__bool__\<close> nor \<^verbatim>\<open>__len__\<close>, so \<^verbatim>\<open>if chat:\<close> holds exactly when there is a chat.
\<close>

datatype Chat = Chat (id_Chat: int)

datatype User = User (id_User: int)

record Update =
  effective_chat :: "Chat option"
  effective_user :: "User option"

datatype update_object = An_Update Update | Not_an_Update pyval

section \<open>The context\<close>

text \<open>
  The slots of \<^verbatim>\<open>__slots__\<close>: the three private ones (without their leading underscore,
  \<open>application_slot\<close> for \<^verbatim>\<open>_application\<close>), the five public ones, and \<^verbatim>\<open>__dict__\<close>, the
  dictionary of the attributes added at run time. The slot \<^verbatim>\<open>_application\<close> holds a
  reference to the application; the application itself is passed to every function
  that reads or changes it.
\<close>

record CallbackContext =
  application_slot :: pyval
  chat_id_and_data :: pyval
  user_id_and_data :: pyval
  args :: pyval
  matches :: pyval
  error :: pyval
  job :: pyval
  coroutine :: pyval
  dict_slot :: "(pyval \<times> pyval) list"

definition init :: "pyval \<Rightarrow> CallbackContext" where
  "init application =
     \<lparr>application_slot = application, chat_id_and_data = PyNone, user_id_and_data = PyNone,
      args = PyNone, matches = PyNone, error = PyNone, job = PyNone, coroutine = PyNone,
      dict_slot = []\<rparr>"

definition application :: "CallbackContext \<Rightarrow> pyval" where
  "application self = application_slot self"

text \<open>
  Reading an attribute of the application through a slot: of the objects of the model
  only the application has the attributes \<^verbatim>\<open>bot_data\<close>, \<^verbatim>\<open>persistence\<close> and \<^verbatim>\<open>bot\<close>.
\<close>

definition app_getattr :: "pyval \<Rightarrow> Application \<Rightarrow> (Application \<Rightarrow> 'a) \<Rightarrow> py_error + 'a" where
  "app_getattr obj app field = (case obj of PyApp \<Rightarrow> Inr (field app) | _ \<Rightarrow> Inl AttributeError)"

definition bot_data :: "Application \<Rightarrow> CallbackContext \<Rightarrow> py_error + pyval" where
  "bot_data app self = app_getattr (application self) app app_bot_data"

definition bot_data_setter :: "CallbackContext \<Rightarrow> pyval \<Rightarrow> py_error + CallbackContext" where
  "bot_data_setter self v = Inl AttributeError"

definition chat_data :: "CallbackContext \<Rightarrow> py_error + pyval" where
  "chat_data self =
     (if py_truthy (chat_id_and_data self) then py_getitem (chat_id_and_data self) 1
      else Inr PyNone)"

definition chat_data_setter :: "CallbackContext \<Rightarrow> pyval \<Rightarrow> py_error + CallbackContext" where
  "chat_data_setter self v = Inl AttributeError"

definition user_data :: "CallbackContext \<Rightarrow> py_error + pyval" where
  "user_data self =
     (if py_truthy (user_id_and_data self) then py_getitem (user_id_and_data self) 1
      else Inr PyNone)"

definition user_data_setter :: "CallbackContext \<Rightarrow> pyval \<Rightarrow> py_error + CallbackContext" where
  "user_data_setter self v = Inl AttributeError"

definition bot :: "Application \<Rightarrow> CallbackContext \<Rightarrow> py_error + Bot" where
  "bot app self = app_getattr (application_slot self) app app_bot"

text \<open>\<^verbatim>\<open>match\<close>: the handler catches \<^verbatim>\<open>IndexError\<close> and \<^verbatim>\<open>TypeError\<close>, and nothing else.\<close>

definition match :: "CallbackContext \<Rightarrow> py_error + pyval" where
  "match self =
     (case py_getitem (matches self) 0 of
        Inr m \<Rightarrow> Inr m
      | Inl e \<Rightarrow> if e = IndexError \<or> e = TypeError then Inr PyNone else Inl e)"

section \<open>Refreshing the data from the persistence\<close>

text \<open>
  \<^verbatim>\<open>refresh_data\<close> awaits up to three hooks of the persistence, one after the other. The
  result is the list of the calls made, in order, and the exception that ended the
  method, if any. A hook takes the bot data, or an id and the data of that id: a call
  \<^verbatim>\<open>hook(*x)\<close> raises \<^verbatim>\<open>TypeError\<close> unless \<^verbatim>\<open>x\<close> unpacks to two objects.
\<close>

type_synonym hook_result = "hook_call list \<times> py_error option"

definition call_unpacked :: "(pyval \<Rightarrow> pyval \<Rightarrow> hook_call) \<Rightarrow> pyval \<Rightarrow> hook_result" where
  "call_unpacked hook x =
     (case py_unpack x of
        Inl e \<Rightarrow> ([], Some e)
      | Inr ys \<Rightarrow> (case ys of [a, b] \<Rightarrow> ([hook a b], None) | _ \<Rightarrow> ([], Some TypeError)))"

fun and_then :: "hook_result \<Rightarrow> hook_result \<Rightarrow> hook_result" where
  "and_then (calls, Some e) r = (calls, Some e)"
| "and_then (calls, None) (calls', r) = (calls @ calls', r)"

definition refresh_data :: "Application \<Rightarrow> CallbackContext \<Rightarrow> hook_result" where
  "refresh_data app self =
     (case app_getattr (application self) app app_persistence of
        Inl e \<Rightarrow> ([], Some e)
      | Inr None \<Rightarrow> ([], None)
      | Inr (Some persistence) \<Rightarrow>
          and_then
            (if store_bot_data persistence
             then (case bot_data app self of
                     Inl e \<Rightarrow> ([], Some e)
                   | Inr d \<Rightarrow> ([Refresh_bot_data d], None))
             else ([], None))
         (and_then
            (if store_chat_data persistence \<and> chat_id_and_data self \<noteq> PyNone
             then call_unpacked Refresh_chat_data (chat_id_and_data self)
             else ([], None))
            (if store_user_data persistence \<and> user_id_and_data self \<noteq> PyNone
             then call_unpacked Refresh_user_data (user_id_and_data self)
             else ([], None))))"

section \<open>Dropping cached callback data\<close>

text \<open>
  \<^verbatim>\<open>drop_callback_data\<close> returns \<^verbatim>\<open>None\<close>; what it leaves behind is the application,
  whose bot holds the cache. An exception leaves the application as it was.
\<close>

definition drop_callback_data ::
  "Application \<Rightarrow> CallbackContext \<Rightarrow> CallbackQuery \<Rightarrow> py_error + Application" where
  "drop_callback_data app self callback_query =
     (case bot app self of
        Inl e \<Rightarrow> Inl e
      | Inr (ExtBot enabled cache) \<Rightarrow>
          if \<not> enabled then Inl RuntimeError
          else (case drop_data cache callback_query of
                  Inl e \<Rightarrow> Inl e
                | Inr cache' \<Rightarrow> Inr (app\<lparr>app_bot := ExtBot enabled cache'\<rparr>))
      | Inr Bot \<Rightarrow> Inl RuntimeError)"

section \<open>The three constructors\<close>

text \<open>
  A constructor returns the new context and the application, whose stores may have got
  a new entry.
\<close>

definition from_update :: "update_object \<Rightarrow> Application \<Rightarrow> CallbackContext \<times> Application" where
  "from_update update app =
     (let self = init PyApp in
      case update of
        Not_an_Update obj \<Rightarrow> (self, app)
      | An_Update u \<Rightarrow>
          (let (self, app) =
                 (case effective_chat u of
                    None \<Rightarrow> (self, app)
                  | Some chat \<Rightarrow>
                      (let (d, app) = chat_data_getitem app (id_Chat chat)
                       in (self\<lparr>chat_id_and_data := PyTuple [PyInt (id_Chat chat), d]\<rparr>, app)))
           in (case effective_user u of
                 None \<Rightarrow> (self, app)
               | Some user \<Rightarrow>
                   (let (d, app) = user_data_getitem app (id_User user)
                    in (self\<lparr>user_id_and_data := PyTuple [PyInt (id_User user), d]\<rparr>, app)))))"

definition from_error ::
  "update_object \<Rightarrow> pyval \<Rightarrow> Application \<Rightarrow> pyval \<Rightarrow> pyval \<Rightarrow> CallbackContext \<times> Application" where
  "from_error update err app j co =
     (let (self, app) = from_update update app;
          self = self\<lparr>error := err\<rparr>;
          self = self\<lparr>coroutine := co\<rparr>;
          self = self\<lparr>job := j\<rparr>
      in (self, app))"

text \<open>
  \<^verbatim>\<open>from_job\<close> tests \<^verbatim>\<open>if job.chat_id:\<close> and \<^verbatim>\<open>if job.user_id:\<close>, the truth value of
  the id.
\<close>

definition id_object :: "int option \<Rightarrow> pyval" where
  "id_object i = (case i of None \<Rightarrow> PyNone | Some n \<Rightarrow> PyInt n)"

definition from_job :: "Job \<Rightarrow> Application \<Rightarrow> CallbackContext \<times> Application" where
  "from_job j app =
     (let self = init PyApp;
          self = self\<lparr>job := PyJob j\<rparr>;
          (self, app) =
            (case chat_id j of
               Some k \<Rightarrow>
                 if py_truthy (id_object (chat_id j))
                 then (let (d, app) = chat_data_getitem app k
                       in (self\<lparr>chat_id_and_data := PyTuple [PyInt k, d]\<rparr>, app))
                 else (self, app)
             | None \<Rightarrow> (self, app))
      in (case user_id j of
            Some k \<Rightarrow>
              if py_truthy (id_object (user_id j))
              then (let (d, app) = user_data_getitem app k
                    in (self\<lparr>user_id_and_data := PyTuple [PyInt k, d]\<rparr>, app))
              else (self, app)
          | None \<Rightarrow> (self, app)))"

section \<open>Setting attributes by name\<close>

text \<open>
  \<^verbatim>\<open>setattr(self, key, value)\<close> on a context. The properties \<^verbatim>\<open>bot_data\<close>, \<^verbatim>\<open>chat_data\<close>
  and \<^verbatim>\<open>user_data\<close> have setters, which raise; \<^verbatim>\<open>application\<close>, \<^verbatim>\<open>bot\<close>, \<^verbatim>\<open>job_queue\<close>,
  \<^verbatim>\<open>update_queue\<close> and \<^verbatim>\<open>match\<close> are properties without a setter, and Python raises
  \<^verbatim>\<open>AttributeError\<close> for them. A name of \<^verbatim>\<open>__slots__\<close> sets its slot. \<^verbatim>\<open>__dict__\<close> takes
  a dictionary only, \<^verbatim>\<open>__class__\<close> a class only, and no object of the model is a class.
  Any other name becomes an entry of \<^verbatim>\<open>__dict__\<close>.
\<close>

definition setattr :: "CallbackContext \<Rightarrow> string \<Rightarrow> pyval \<Rightarrow> py_error + CallbackContext" where
  "setattr self key v =
     (if key = ''bot_data'' then bot_data_setter self v
      else if key = ''chat_data'' then chat_data_setter self v
      else if key = ''user_data'' then user_data_setter self v
      else if key \<in> set [''application'', ''bot'', ''job_queue'', ''update_queue'', ''match'']
        then Inl AttributeError
      else if key = ''_application'' then Inr (self\<lparr>application_slot := v\<rparr>)
      else if key = ''_chat_id_and_data'' then Inr (self\<lparr>chat_id_and_data := v\<rparr>)
      else if key = ''_user_id_and_data'' then Inr (self\<lparr>user_id_and_data := v\<rparr>)
      else if key = ''args'' then Inr (self\<lparr>args := v\<rparr>)
      else if key = ''matches'' then Inr (self\<lparr>matches := v\<rparr>)
      else if key = ''error'' then Inr (self\<lparr>error := v\<rparr>)
      else if key = ''job'' then Inr (self\<lparr>job := v\<rparr>)
      else if key = ''coroutine'' then Inr (self\<lparr>coroutine := v\<rparr>)
      else if key = ''__dict__''
        then (case v of PyDict kvs \<Rightarrow> Inr (self\<lparr>dict_slot := kvs\<rparr>) | _ \<Rightarrow> Inl TypeError)
      else if key = ''__class__'' then Inl TypeError
      else Inr (self\<lparr>dict_slot := AList.update (PyStr key) v (dict_slot self)\<rparr>))"

text \<open>
  \<^verbatim>\<open>update\<close>: the loop over \<^verbatim>\<open>data.items()\<close>, the items in the order of the dictionary.
  An exception ends the loop; the attributes set before it stay set. The result is the
  context after the call and the exception, if any.
\<close>

fun update :: "CallbackContext \<Rightarrow> (string \<times> pyval) list \<Rightarrow> CallbackContext \<times> py_error option" where
  "update self [] = (self, None)"
| "update self ((key, v) # items) =
     (case setattr self key v of
        Inl e \<Rightarrow> (self, Some e)
      | Inr self' \<Rightarrow> update self' items)"

text \<open>What the instance stores under a name: the slot of that name, or the entry of \<^verbatim>\<open>__dict__\<close>.\<close>

definition stored :: "CallbackContext \<Rightarrow> string \<Rightarrow> pyval option" where
  "stored self key =
     (if key = ''_application'' then Some (application_slot self)
      else if key = ''_chat_id_and_data'' then Some (chat_id_and_data self)
      else if key = ''_user_id_and_data'' then Some (user_id_and_data self)
      else if key = ''args'' then Some (args self)
      else if key = ''matches'' then Some (matches self)
      else if key = ''error'' then Some (error self)
      else if key = ''job'' then Some (job self)
      else if key = ''coroutine'' then Some (coroutine self)
      else map_of (dict_slot self) (PyStr key))"

text \<open>
  The names \<^verbatim>\<open>setattr\<close> does not store under, the properties and the two names
  \<^verbatim>\<open>__dict__\<close> and \<^verbatim>\<open>__class__\<close>, and the names of the slots.
\<close>

definition property_names :: "string list" where
  "property_names =
     [''bot_data'', ''chat_data'', ''user_data'',
      ''application'', ''bot'', ''job_queue'', ''update_queue'', ''match'']"

definition interpreter_names :: "string list" where
  "interpreter_names = [''__dict__'', ''__class__'']"

definition slot_names :: "string list" where
  "slot_names =
     [''_application'', ''_chat_id_and_data'', ''_user_id_and_data'',
      ''args'', ''matches'', ''error'', ''job'', ''coroutine'']"

section \<open>Example inputs\<close>

text \<open>
  An application whose bot is a plain bot, with data for chat 7 and no data yet for user
  9, and the same application with a persistence that stores every category.
\<close>

definition example_app :: Application where
  "example_app =
     \<lparr>app_bot = Bot, app_bot_data = PyDict [(PyStr ''runs'', PyInt 2)],
      app_chat_data = [7 \<mapsto> PyDict [(PyStr ''title'', PyStr ''ops'')]],
      app_user_data = Map.empty,
      app_persistence = None\<rparr>"

definition example_persistent_app :: Application where
  "example_persistent_app =
     example_app\<lparr>app_persistence :=
       Some \<lparr>store_bot_data = True, store_chat_data = True, store_user_data = True\<rparr>\<rparr>"

text \<open>A cache that knows the callback query \<^verbatim>\<open>q1\<close>, and an application whose bot uses it.\<close>

definition example_cache :: CallbackDataCache where
  "example_cache =
     \<lparr>query_index = [''q1'' \<mapsto> ''kb1''], data_index = [''kb1'' \<mapsto> PyStr ''payload'']\<rparr>"

definition example_ext_app :: Application where
  "example_ext_app = example_app\<lparr>app_bot := ExtBot True example_cache\<rparr>"

text \<open>An update from chat 7 and user 9, and a job for chat 7 without a user.\<close>

definition example_update :: Update where
  "example_update = \<lparr>effective_chat = Some (Chat 7), effective_user = Some (User 9)\<rparr>"

definition example_job :: Job where
  "example_job = \<lparr>chat_id = Some 7, user_id = None, name = ''tick''\<rparr>"

section \<open>Lemmas about assignment by name and about the constructors\<close>

text \<open>
  What \<^verbatim>\<open>setattr\<close> does for each kind of name and what the instance stores afterwards;
  the slots of a context after a constructor has run.
\<close>

lemma setattr_property_all:
  "\<forall>key \<in> set property_names. setattr self key v = Inl AttributeError"
  by (simp add: property_names_def setattr_def bot_data_setter_def chat_data_setter_def
        user_data_setter_def)

lemma setattr_slot_all:
  "\<forall>key \<in> set slot_names. \<exists>self'. setattr self key v = Inr self' \<and> stored self' key = Some v"
  by (simp add: slot_names_def setattr_def stored_def)

lemma setattr_slot_frame:
  "\<forall>key \<in> set slot_names. \<forall>k. k \<noteq> key \<longrightarrow>
     (case setattr self key v of Inr self' \<Rightarrow> stored self' k = stored self k | Inl e \<Rightarrow> False)"
  by (simp add: slot_names_def setattr_def stored_def)

lemma setattr_custom:
  assumes "key \<notin> set property_names" "key \<notin> set slot_names" "key \<notin> set interpreter_names"
  shows "setattr self key v = Inr (self\<lparr>dict_slot := AList.update (PyStr key) v (dict_slot self)\<rparr>)"
  using assms
  by (simp add: setattr_def property_names_def slot_names_def interpreter_names_def)

lemma stored_custom:
  assumes "key \<notin> set slot_names"
  shows "stored self key = map_of (dict_slot self) (PyStr key)"
  using assms by (simp add: stored_def slot_names_def)

lemma stored_slot_dict_update:
  "\<forall>k \<in> set slot_names. stored (self\<lparr>dict_slot := d\<rparr>) k = stored self k"
  by (simp add: slot_names_def stored_def)

lemma setattr_stores:
  assumes "key \<notin> set property_names" "key \<notin> set interpreter_names"
  shows "\<exists>self'. setattr self key v = Inr self' \<and> stored self' key = Some v \<and>
           (\<forall>k. k \<noteq> key \<longrightarrow> stored self' k = stored self k)"
proof (cases "key \<in> set slot_names")
  case True
  from setattr_slot_all[of self v] True obtain self' where
    s: "setattr self key v = Inr self'" and h: "stored self' key = Some v"
    by blast
  have "stored self' k = stored self k" if "k \<noteq> key" for k
  proof -
    from setattr_slot_frame[of self v] True that
    have "case setattr self key v of Inr self' \<Rightarrow> stored self' k = stored self k | Inl e \<Rightarrow> False"
      by blast
    with s show ?thesis by simp
  qed
  with s h show ?thesis by blast
next
  case False
  let ?self' = "self\<lparr>dict_slot := AList.update (PyStr key) v (dict_slot self)\<rparr>"
  have s: "setattr self key v = Inr ?self'"
    by (rule setattr_custom[OF assms(1) False assms(2)])
  have h: "stored ?self' key = Some v"
    by (simp add: stored_custom[OF False] update_conv')
  have "stored ?self' k = stored self k" if "k \<noteq> key" for k
  proof (cases "k \<in> set slot_names")
    case True
    with stored_slot_dict_update show ?thesis by blast
  next
    case False
    from that show ?thesis
      by (simp add: stored_custom[OF False] update_conv')
  qed
  with s h show ?thesis by blast
qed

lemma update_append:
  "snd (update self data) = None \<Longrightarrow>
   update self (data @ items) = update (fst (update self data)) items"
  by (induction data arbitrary: self) (auto split: sum.splits)


lemma chat_data_getitem_user_store:
  "app_user_data (snd (chat_data_getitem app k)) = app_user_data app"
  by (simp add: chat_data_getitem_def store_getitem_def split: option.splits)

lemma user_data_getitem_cong:
  "app_user_data app' = app_user_data app \<Longrightarrow>
   fst (user_data_getitem app' k) = fst (user_data_getitem app k)"
  by (simp add: user_data_getitem_def store_getitem_def split: option.splits)

lemma from_job_chat_slot:
  "chat_id_and_data (fst (from_job j app)) =
     (case chat_id j of
        None \<Rightarrow> PyNone
      | Some k \<Rightarrow> if k = 0 then PyNone else PyTuple [PyInt k, fst (chat_data_getitem app k)])"
  by (cases "chat_id j"; cases "user_id j")
     (simp_all add: from_job_def init_def id_object_def Let_def case_prod_beta)

lemma from_job_user_slot:
  "user_id_and_data (fst (from_job j app)) =
     (case user_id j of
        None \<Rightarrow> PyNone
      | Some k \<Rightarrow> if k = 0 then PyNone else PyTuple [PyInt k, fst (user_data_getitem app k)])"
proof (cases "chat_id j")
  case None
  then show ?thesis
    by (cases "user_id j")
       (simp_all add: from_job_def init_def id_object_def Let_def case_prod_beta)
next
  case (Some c)
  have "fst (user_data_getitem (snd (chat_data_getitem app c)) k) = fst (user_data_getitem app k)" for k
    by (rule user_data_getitem_cong) (rule chat_data_getitem_user_store)
  with Some show ?thesis
    by (cases "user_id j")
       (simp_all add: from_job_def init_def id_object_def Let_def case_prod_beta)
qed

lemma from_update_chat_slot:
  "chat_id_and_data (fst (from_update (An_Update u) app)) =
     (case effective_chat u of
        None \<Rightarrow> PyNone
      | Some chat \<Rightarrow> PyTuple [PyInt (id_Chat chat), fst (chat_data_getitem app (id_Chat chat))])"
  by (cases "effective_chat u"; cases "effective_user u")
     (simp_all add: from_update_def init_def Let_def case_prod_beta)

lemma from_update_user_slot:
  "user_id_and_data (fst (from_update (An_Update u) app)) =
     (case effective_user u of
        None \<Rightarrow> PyNone
      | Some user \<Rightarrow> PyTuple [PyInt (id_User user), fst (user_data_getitem app (id_User user))])"
proof (cases "effective_chat u")
  case None
  then show ?thesis
    by (cases "effective_user u")
       (simp_all add: from_update_def init_def Let_def case_prod_beta)
next
  case (Some c)
  have "fst (user_data_getitem (snd (chat_data_getitem app (id_Chat c))) k)
          = fst (user_data_getitem app k)" for k
    by (rule user_data_getitem_cong) (rule chat_data_getitem_user_store)
  with Some show ?thesis
    by (cases "effective_user u")
       (simp_all add: from_update_def init_def Let_def case_prod_beta)
qed

lemma from_update_other_slots:
  "application_slot (fst (from_update upd app)) = PyApp \<and>
   args (fst (from_update upd app)) = PyNone \<and>
   matches (fst (from_update upd app)) = PyNone \<and>
   error (fst (from_update upd app)) = PyNone \<and>
   job (fst (from_update upd app)) = PyNone \<and>
   coroutine (fst (from_update upd app)) = PyNone \<and>
   dict_slot (fst (from_update upd app)) = []"
proof (cases upd)
  case (An_Update u)
  then show ?thesis
    by (cases "effective_chat u"; cases "effective_user u")
       (simp_all add: from_update_def init_def Let_def case_prod_beta)
next
  case (Not_an_Update obj)
  then show ?thesis
    by (simp add: from_update_def init_def)
qed

lemma from_job_other_slots:
  "application_slot (fst (from_job j app)) = PyApp \<and>
   job (fst (from_job j app)) = PyJob j"
  by (cases "chat_id j"; cases "user_id j")
     (simp_all add: from_job_def init_def Let_def case_prod_beta)

lemma data_of_slot:
  "chat_id_and_data self = PyNone \<Longrightarrow> chat_data self = Inr PyNone"
  "chat_id_and_data self = PyTuple [i, d] \<Longrightarrow> chat_data self = Inr d"
  "user_id_and_data self = PyNone \<Longrightarrow> user_data self = Inr PyNone"
  "user_id_and_data self = PyTuple [i, d] \<Longrightarrow> user_data self = Inr d"
  by (simp_all add: chat_data_def user_data_def seq_getitem_def)

lemma store_getitem_entry:
  "snd (store_getitem store k) k = Some (fst (store_getitem store k))"
  by (simp add: store_getitem_def split: option.splits)

lemma store_getitem_existing:
  "store k = Some d \<Longrightarrow> fst (store_getitem store k) = d"
  by (simp add: store_getitem_def)

lemma chat_data_getitem_store:
  "fst (chat_data_getitem app k) = fst (store_getitem (app_chat_data app) k)"
  "app_chat_data (snd (chat_data_getitem app k)) = snd (store_getitem (app_chat_data app) k)"
  by (simp_all add: chat_data_getitem_def case_prod_beta)

lemma user_data_getitem_store:
  "fst (user_data_getitem app k) = fst (store_getitem (app_user_data app) k)"
  "app_user_data (snd (user_data_getitem app k)) = snd (store_getitem (app_user_data app) k)"
  "app_chat_data (snd (user_data_getitem app k)) = app_chat_data app"
  by (simp_all add: user_data_getitem_def case_prod_beta)

lemma from_update_chat_store:
  "app_chat_data (snd (from_update (An_Update u) app)) =
     (case effective_chat u of
        None \<Rightarrow> app_chat_data app
      | Some chat \<Rightarrow> snd (store_getitem (app_chat_data app) (id_Chat chat)))"
  by (cases "effective_chat u"; cases "effective_user u")
     (simp_all add: from_update_def Let_def case_prod_beta chat_data_getitem_store
        user_data_getitem_store)

lemma from_update_user_store:
  "app_user_data (snd (from_update (An_Update u) app)) =
     (case effective_user u of
        None \<Rightarrow> app_user_data app
      | Some user \<Rightarrow> snd (store_getitem (app_user_data app) (id_User user)))"
  by (cases "effective_chat u"; cases "effective_user u")
     (simp_all add: from_update_def Let_def case_prod_beta chat_data_getitem_store
        user_data_getitem_store chat_data_getitem_user_store)

lemma update_ok:
  assumes "distinct (map fst data)"
    and "\<forall>k \<in> set (map fst data). k \<notin> set property_names \<and> k \<notin> set interpreter_names"
  shows "snd (update self data) = None \<and>
         (\<forall>(k, v) \<in> set data. stored (fst (update self data)) k = Some v) \<and>
         (\<forall>k. k \<notin> set (map fst data) \<longrightarrow> stored (fst (update self data)) k = stored self k)"
  using assms
proof (induction data arbitrary: self)
  case Nil
  then show ?case by simp
next
  case (Cons kv data)
  obtain key v where kv: "kv = (key, v)" by (cases kv)
  from Cons.prems kv have ok: "key \<notin> set property_names" "key \<notin> set interpreter_names"
    by simp_all
  from setattr_stores[OF ok, of self v] obtain self' where
    s: "setattr self key v = Inr self'" and here: "stored self' key = Some v"
    and frame: "\<And>k. k \<noteq> key \<Longrightarrow> stored self' k = stored self k"
    by blast
  have upd: "update self (kv # data) = update self' data"
    by (simp add: kv s)
  from Cons.prems kv have d: "distinct (map fst data)" and fresh: "key \<notin> set (map fst data)"
    and rest: "\<forall>k \<in> set (map fst data). k \<notin> set property_names \<and> k \<notin> set interpreter_names"
    by simp_all
  note IH = Cons.IH[OF d rest, of self']
  from IH have a: "snd (update self' data) = None" by blast
  from IH have b: "\<And>k w. (k, w) \<in> set data \<Longrightarrow> stored (fst (update self' data)) k = Some w"
    by blast
  from IH have c: "\<And>k. k \<notin> set (map fst data) \<Longrightarrow> stored (fst (update self' data)) k = stored self' k"
    by blast
  have b': "stored (fst (update self' data)) k = Some w" if "(k, w) \<in> set (kv # data)" for k w
  proof (cases "(k, w) = kv")
    case True
    with kv have "k = key" "w = v" by simp_all
    with c[OF fresh] here show ?thesis by simp
  next
    case False
    with that have "(k, w) \<in> set data" by simp
    then show ?thesis by (rule b)
  qed
  have c': "stored (fst (update self' data)) k = stored self k" if "k \<notin> set (map fst (kv # data))" for k
  proof -
    from that kv have "k \<noteq> key" "k \<notin> set (map fst data)" by simp_all
    with c frame show ?thesis by simp
  qed
  show ?case
    unfolding upd using a b' c' by blast
qed

section \<open>Assigning to the data accessors\<close>

text \<open>
  C1. For every context and every value, assigning to \<^verbatim>\<open>bot_data\<close>, \<^verbatim>\<open>chat_data\<close> or
  \<^verbatim>\<open>user_data\<close> fails with \<^verbatim>\<open>AttributeError\<close> (the spec's InvalidOperation), whatever the
  context holds: each setter raises, and so does the assignment by name, which Python
  routes to the setter.
\<close>

theorem setters_raise:
  "bot_data_setter self v = Inl AttributeError \<and>
   chat_data_setter self v = Inl AttributeError \<and>
   user_data_setter self v = Inl AttributeError \<and>
   setattr self ''bot_data'' v = Inl AttributeError \<and>
   setattr self ''chat_data'' v = Inl AttributeError \<and>
   setattr self ''user_data'' v = Inl AttributeError"
  by (simp add: setattr_def bot_data_setter_def chat_data_setter_def user_data_setter_def)

section \<open>The first match\<close>

text \<open>
  C3. Reading \<^verbatim>\<open>match\<close> returns \<^verbatim>\<open>None\<close> when \<^verbatim>\<open>matches\<close> is \<^verbatim>\<open>None\<close>, returns \<^verbatim>\<open>None\<close>
  when \<^verbatim>\<open>matches\<close> is the empty list, and returns the first element of a list that is
  not empty; for \<^verbatim>\<open>matches\<close> of its declared type, \<^verbatim>\<open>None\<close> or a list, the accessor never
  raises.
\<close>

theorem match_absent_empty_first:
  "(matches self = PyNone \<longrightarrow> match self = Inr PyNone) \<and>
   (matches self = PyList [] \<longrightarrow> match self = Inr PyNone) \<and>
   (matches self = PyList (m # ms) \<longrightarrow> match self = Inr m) \<and>
   (matches self = PyNone \<or> (\<exists>xs. matches self = PyList xs) \<longrightarrow> (\<exists>r. match self = Inr r))"
  by (auto simp add: match_def seq_getitem_def)

theorem match_absent_empty_first_witness:
  "match (init PyApp) = Inr PyNone \<and>
   match ((init PyApp)\<lparr>matches := PyList []\<rparr>) = Inr PyNone \<and>
   match ((init PyApp)\<lparr>matches := PyList [PyMatch ''ab'' [Some ''b''], PyMatch ''c'' []]\<rparr>)
     = Inr (PyMatch ''ab'' [Some ''b''])"
  using match_absent_empty_first[of "init PyApp"]
    match_absent_empty_first[of "(init PyApp)\<lparr>matches := PyList []\<rparr>"]
    match_absent_empty_first[of "(init PyApp)\<lparr>matches := PyList [PyMatch ''ab'' [Some ''b''], PyMatch ''c'' []]\<rparr>"
       "PyMatch ''ab'' [Some ''b'']" "[PyMatch ''c'' []]"]
  by (simp add: init_def)

section \<open>Contexts from updates, jobs and errors\<close>

text \<open>
  C4. For an update with an effective chat, \<^verbatim>\<open>chat_data\<close> of the context that
  \<^verbatim>\<open>from_update\<close> builds is what the lookup of that chat id in the chat-data store of
  the application returns at that time: the entry the store had for the id, when it had
  one, and in every case the entry the store has for the id once the context is built.
  Likewise \<^verbatim>\<open>user_data\<close> for an effective user and the user-data store. For an update
  without an effective chat, \<^verbatim>\<open>chat_data\<close> is \<^verbatim>\<open>None\<close> and the chat-data store is as it
  was.
\<close>

theorem from_update_data_handles:
  "(effective_chat u = Some chat \<longrightarrow>
      chat_data (fst (from_update (An_Update u) app))
        = Inr (fst (chat_data_getitem app (id_Chat chat))) \<and>
      app_chat_data (snd (from_update (An_Update u) app)) (id_Chat chat)
        = Some (fst (chat_data_getitem app (id_Chat chat))) \<and>
      (\<forall>d. app_chat_data app (id_Chat chat) = Some d \<longrightarrow>
         chat_data (fst (from_update (An_Update u) app)) = Inr d)) \<and>
   (effective_user u = Some user \<longrightarrow>
      user_data (fst (from_update (An_Update u) app))
        = Inr (fst (user_data_getitem app (id_User user))) \<and>
      app_user_data (snd (from_update (An_Update u) app)) (id_User user)
        = Some (fst (user_data_getitem app (id_User user))) \<and>
      (\<forall>d. app_user_data app (id_User user) = Some d \<longrightarrow>
         user_data (fst (from_update (An_Update u) app)) = Inr d)) \<and>
   (effective_chat u = None \<longrightarrow>
      chat_data (fst (from_update (An_Update u) app)) = Inr PyNone \<and>
      app_chat_data (snd (from_update (An_Update u) app)) = app_chat_data app)"
  by (simp add: data_of_slot from_update_chat_slot from_update_user_slot
      from_update_chat_store from_update_user_store store_getitem_entry
      store_getitem_existing chat_data_getitem_store user_data_getitem_store)

theorem from_update_data_handles_witness:
  "chat_data (fst (from_update (An_Update example_update) example_app))
     = Inr (PyDict [(PyStr ''title'', PyStr ''ops'')]) \<and>
   app_chat_data example_app 7 = Some (PyDict [(PyStr ''title'', PyStr ''ops'')]) \<and>
   app_chat_data (snd (from_update (An_Update example_update) example_app)) 7
     = Some (PyDict [(PyStr ''title'', PyStr ''ops'')]) \<and>
   user_data (fst (from_update (An_Update example_update) example_app)) = Inr (PyDict []) \<and>
   app_user_data example_app 9 = None \<and>
   app_user_data (snd (from_update (An_Update example_update) example_app)) 9 = Some (PyDict []) \<and>
   chat_data (fst (from_update (An_Update (example_update\<lparr>effective_chat := None\<rparr>)) example_app))
     = Inr PyNone"
proof -
  have c: "effective_chat example_update = Some (Chat 7)"
    and u: "effective_user example_update = Some (User 9)"
    and n: "effective_chat (example_update\<lparr>effective_chat := None\<rparr>) = None"
    by (simp_all add: example_update_def)
  have g: "fst (chat_data_getitem example_app 7) = PyDict [(PyStr ''title'', PyStr ''ops'')]"
    and h: "fst (user_data_getitem example_app 9) = PyDict []"
    and e: "app_chat_data example_app 7 = Some (PyDict [(PyStr ''title'', PyStr ''ops'')])"
    and f: "app_user_data example_app 9 = None"
    by (simp_all add: example_app_def chat_data_getitem_def user_data_getitem_def store_getitem_def)
  from from_update_data_handles[of example_update "Chat 7" example_app "User 9"] c u g h e f
    from_update_data_handles[of "example_update\<lparr>effective_chat := None\<rparr>" "Chat 7" example_app "User 9"] n
  show ?thesis
    by simp
qed

text \<open>
  C6. \<^verbatim>\<open>from_job\<close> on a job with a chat id and without a user id is to give a context
  whose \<^verbatim>\<open>chat_data\<close> is the entry of the chat-data store for that chat id. The job
  below has the chat id 0 and no user id, and the store has data for chat 0:
  \<^verbatim>\<open>from_job\<close>, which tests the truth value of the id, leaves \<^verbatim>\<open>chat_data\<close> \<^verbatim>\<open>None\<close>, while
  \<^verbatim>\<open>from_update\<close> on an update from chat 0 returns the data of chat 0.
\<close>

theorem from_job_zero_chat_id_evaluated:
  "chat_id (example_job\<lparr>chat_id := Some 0\<rparr>) = Some 0 \<and>
   user_id (example_job\<lparr>chat_id := Some 0\<rparr>) = None \<and>
   fst (chat_data_getitem (example_app\<lparr>app_chat_data := [0 \<mapsto> PyDict [(PyStr ''k'', PyInt 1)]]\<rparr>) 0)
     = PyDict [(PyStr ''k'', PyInt 1)] \<and>
   chat_data (fst (from_job (example_job\<lparr>chat_id := Some 0\<rparr>)
       (example_app\<lparr>app_chat_data := [0 \<mapsto> PyDict [(PyStr ''k'', PyInt 1)]]\<rparr>))) = Inr PyNone \<and>
   chat_data (fst (from_update (An_Update \<lparr>effective_chat = Some (Chat 0), effective_user = None\<rparr>)
       (example_app\<lparr>app_chat_data := [0 \<mapsto> PyDict [(PyStr ''k'', PyInt 1)]]\<rparr>)))
     = Inr (PyDict [(PyStr ''k'', PyInt 1)])"
  by (simp add: example_job_def example_app_def from_job_def from_update_def init_def chat_data_def
      chat_data_getitem_def store_getitem_def id_object_def seq_getitem_def)

text \<open>
  C10. \<^verbatim>\<open>from_job\<close> on a job whose chat id is the integer 0 leaves the slot of the chat
  empty and \<^verbatim>\<open>chat_data\<close> \<^verbatim>\<open>None\<close>, as it does for the same job without a chat id; and
  the same for the user id 0 and \<^verbatim>\<open>user_data\<close>. The test is the truth value of the id.
\<close>

theorem from_job_zero_id_is_absent:
  "(chat_id j = Some 0 \<longrightarrow>
      chat_id_and_data (fst (from_job j app)) = PyNone \<and>
      chat_data (fst (from_job j app)) = Inr PyNone \<and>
      chat_data (fst (from_job (j\<lparr>chat_id := None\<rparr>) app)) = Inr PyNone) \<and>
   (user_id j = Some 0 \<longrightarrow>
      user_id_and_data (fst (from_job j app)) = PyNone \<and>
      user_data (fst (from_job j app)) = Inr PyNone \<and>
      user_data (fst (from_job (j\<lparr>user_id := None\<rparr>) app)) = Inr PyNone)"
  by (simp add: data_of_slot from_job_chat_slot from_job_user_slot)

theorem from_job_zero_id_is_absent_witness:
  "chat_data (fst (from_job (example_job\<lparr>chat_id := Some 0\<rparr>) example_app)) = Inr PyNone \<and>
   user_data (fst (from_job (example_job\<lparr>user_id := Some 0\<rparr>) example_app)) = Inr PyNone"
  using from_job_zero_id_is_absent[of "example_job\<lparr>chat_id := Some 0\<rparr>" example_app]
    from_job_zero_id_is_absent[of "example_job\<lparr>user_id := Some 0\<rparr>" example_app]
  by (simp add: example_job_def)

text \<open>
  C7. \<^verbatim>\<open>from_error\<close> gives the context of \<^verbatim>\<open>from_update\<close> on the same update, which may
  be \<^verbatim>\<open>None\<close>, with \<^verbatim>\<open>error\<close>, \<^verbatim>\<open>job\<close> and \<^verbatim>\<open>coroutine\<close> set to its arguments, and leaves
  the application as \<^verbatim>\<open>from_update\<close> does. Without a job and a coroutine (their default
  \<^verbatim>\<open>None\<close>) only \<^verbatim>\<open>error\<close> differs. The accessors \<^verbatim>\<open>chat_data\<close>, \<^verbatim>\<open>user_data\<close> and \<^verbatim>\<open>match\<close>
  read the same in both contexts.
\<close>

theorem from_error_is_from_update_plus:
  "fst (from_error upd err app j co)
     = (fst (from_update upd app))\<lparr>error := err, coroutine := co, job := j\<rparr> \<and>
   snd (from_error upd err app j co) = snd (from_update upd app) \<and>
   fst (from_error upd err app PyNone PyNone) = (fst (from_update upd app))\<lparr>error := err\<rparr> \<and>
   chat_data (fst (from_error upd err app j co)) = chat_data (fst (from_update upd app)) \<and>
   user_data (fst (from_error upd err app j co)) = user_data (fst (from_update upd app)) \<and>
   match (fst (from_error upd err app j co)) = match (fst (from_update upd app))"
proof -
  have e: "from_error upd err app j co
      = ((fst (from_update upd app))\<lparr>error := err, coroutine := co, job := j\<rparr>, snd (from_update upd app))"
    for j co
    by (simp add: from_error_def Let_def case_prod_beta)
  from from_update_other_slots[of upd app]
  have "(fst (from_update upd app))\<lparr>error := err, coroutine := PyNone, job := PyNone\<rparr>
      = (fst (from_update upd app))\<lparr>error := err\<rparr>"
    by simp
  then show ?thesis
    by (simp add: e chat_data_def user_data_def match_def)
qed

section \<open>Merging a dictionary into the context\<close>

text \<open>
  C8, as amended. For a dictionary none of whose names is a property of the class
  (\<^verbatim>\<open>bot_data\<close>, \<^verbatim>\<open>chat_data\<close>, \<^verbatim>\<open>user_data\<close>, \<^verbatim>\<open>application\<close>, \<^verbatim>\<open>bot\<close>, \<^verbatim>\<open>job_queue\<close>,
  \<^verbatim>\<open>update_queue\<close>, \<^verbatim>\<open>match\<close>) or one of \<^verbatim>\<open>__dict__\<close> and \<^verbatim>\<open>__class__\<close>, \<^verbatim>\<open>update\<close> raises
  nothing, the context then stores every value of the dictionary under its name, a slot
  overwritten or an attribute created, and every other name stores what it stored before.
  When the name of a property follows such names, \<^verbatim>\<open>update\<close> raises \<^verbatim>\<open>AttributeError\<close>
  there, with the names before it applied and the names after it not.
\<close>

theorem update_applies_fields:
  assumes "distinct (map fst data)"
    and "\<forall>k \<in> set (map fst data). k \<notin> set property_names \<and> k \<notin> set interpreter_names"
  shows "snd (update self data) = None \<and>
         (\<forall>(k, v) \<in> set data. stored (fst (update self data)) k = Some v) \<and>
         (\<forall>k. k \<notin> set (map fst data) \<longrightarrow> stored (fst (update self data)) k = stored self k) \<and>
         (\<forall>k v items. k \<in> set property_names \<longrightarrow>
            update self (data @ (k, v) # items) = (fst (update self data), Some AttributeError))"
proof -
  note ok = update_ok[OF assms, of self]
  then have n: "snd (update self data) = None" by blast
  have "update self (data @ (k, v) # items) = (fst (update self data), Some AttributeError)"
    if "k \<in> set property_names" for k v items
  proof -
    from setattr_property_all that
    have "setattr (fst (update self data)) k v = Inl AttributeError" by blast
    then show ?thesis by (simp add: update_append[OF n])
  qed
  with ok show ?thesis by blast
qed

theorem update_applies_fields_witness:
  "snd (update (init PyApp) [(''args'', PyList [PyStr ''a'']), (''note'', PyInt 3)]) = None \<and>
   stored (fst (update (init PyApp) [(''args'', PyList [PyStr ''a'']), (''note'', PyInt 3)])) ''args''
     = Some (PyList [PyStr ''a'']) \<and>
   stored (fst (update (init PyApp) [(''args'', PyList [PyStr ''a'']), (''note'', PyInt 3)])) ''note''
     = Some (PyInt 3) \<and>
   update (init PyApp)
       ([(''args'', PyList [PyStr ''a'']), (''note'', PyInt 3)] @ (''chat_data'', PyNone) # [(''z'', PyNone)])
     = (fst (update (init PyApp) [(''args'', PyList [PyStr ''a'']), (''note'', PyInt 3)]),
        Some AttributeError)"
proof -
  let ?data = "[(''args'', PyList [PyStr ''a'']), (''note'', PyInt 3)]"
  have d: "distinct (map fst ?data)"
    by simp
  have n: "\<forall>k \<in> set (map fst ?data). k \<notin> set property_names \<and> k \<notin> set interpreter_names"
    by (simp add: property_names_def interpreter_names_def)
  have p: "''chat_data'' \<in> set property_names"
    by (simp add: property_names_def)
  note t = update_applies_fields[OF d n, of "init PyApp"]
  from t have r1: "snd (update (init PyApp) ?data) = None"
    by blast
  from t have r2: "\<forall>(k, v) \<in> set ?data. stored (fst (update (init PyApp) ?data)) k = Some v"
    by blast
  have m1: "(''args'', PyList [PyStr ''a'']) \<in> set ?data" and m2: "(''note'', PyInt 3) \<in> set ?data"
    by simp_all
  from r2 m1 have r2a: "stored (fst (update (init PyApp) ?data)) ''args'' = Some (PyList [PyStr ''a''])"
    by blast
  from r2 m2 have r2b: "stored (fst (update (init PyApp) ?data)) ''note'' = Some (PyInt 3)"
    by blast
  from t p have r3: "update (init PyApp) (?data @ (''chat_data'', PyNone) # [(''z'', PyNone)])
      = (fst (update (init PyApp) ?data), Some AttributeError)"
    by blast
  from r1 r2a r2b r3 show ?thesis
    by blast
qed

text \<open>
  C8 as stated includes the names of the accessors. Merging a value for \<^verbatim>\<open>bot_data\<close>
  into a new context raises \<^verbatim>\<open>AttributeError\<close>; the context is as before and stores
  nothing under that name.
\<close>

theorem update_bot_data_counterexample:
  "update (init PyApp) [(''bot_data'', PyInt 1)] = (init PyApp, Some AttributeError) \<and>
   stored (init PyApp) ''bot_data'' = None"
  by (simp add: setattr_def bot_data_setter_def stored_def init_def)

text \<open>
  C9. For every object \<^verbatim>\<open>m\<close>, after \<^verbatim>\<open>update({"matches": [m]})\<close>, which raises nothing,
  \<^verbatim>\<open>match\<close> returns \<^verbatim>\<open>m\<close>.
\<close>

theorem update_matches_then_match:
  "match (fst (update self [(''matches'', PyList [m])])) = Inr m \<and>
   snd (update self [(''matches'', PyList [m])]) = None"
  by (simp add: setattr_def match_def seq_getitem_def)

section \<open>The hooks of the persistence\<close>

text \<open>
  C5. For a context that holds its application and, for the chat and for the user, either
  \<^verbatim>\<open>None\<close> or a pair of an id and data, \<^verbatim>\<open>refresh_data\<close> raises nothing and makes these
  calls, in this order and no others: \<^verbatim>\<open>refresh_bot_data\<close> with the bot data exactly when
  the application has a persistence that stores bot data; \<^verbatim>\<open>refresh_chat_data\<close> with the
  chat id and the chat data exactly when the application has a persistence that stores
  chat data and a chat was resolved; \<^verbatim>\<open>refresh_user_data\<close> with the user id and the user
  data exactly when the application has a persistence that stores user data and a user
  was resolved.
\<close>

theorem refresh_data_hooks:
  assumes "application_slot self = PyApp"
    and "chat_id_and_data self = PyNone \<or> chat_id_and_data self = PyTuple [ci, cd]"
    and "user_id_and_data self = PyNone \<or> user_id_and_data self = PyTuple [ui, ud]"
  shows "snd (refresh_data app self) = None \<and>
         fst (refresh_data app self) =
           (if (\<exists>p. app_persistence app = Some p \<and> store_bot_data p)
            then [Refresh_bot_data (app_bot_data app)] else []) @
           (if (\<exists>p. app_persistence app = Some p \<and> store_chat_data p) \<and>
               chat_id_and_data self \<noteq> PyNone
            then [Refresh_chat_data ci cd] else []) @
           (if (\<exists>p. app_persistence app = Some p \<and> store_user_data p) \<and>
               user_id_and_data self \<noteq> PyNone
            then [Refresh_user_data ui ud] else [])"
proof (cases "app_persistence app")
  case None
  with assms(1) show ?thesis
    by (simp add: refresh_data_def app_getattr_def application_def)
next
  case (Some p)
  have b: "bot_data app self = Inr (app_bot_data app)"
    using assms(1) by (simp add: bot_data_def app_getattr_def application_def)
  have c: "chat_id_and_data self \<noteq> PyNone \<Longrightarrow>
      call_unpacked Refresh_chat_data (chat_id_and_data self) = ([Refresh_chat_data ci cd], None)"
    using assms(2) by (auto simp add: call_unpacked_def)
  have u: "user_id_and_data self \<noteq> PyNone \<Longrightarrow>
      call_unpacked Refresh_user_data (user_id_and_data self) = ([Refresh_user_data ui ud], None)"
    using assms(3) by (auto simp add: call_unpacked_def)
  from Some assms(1) b c u show ?thesis
    by (simp add: refresh_data_def app_getattr_def application_def)
qed

theorem refresh_data_hooks_witness:
  "refresh_data example_persistent_app (fst (from_job example_job example_persistent_app))
     = ([Refresh_bot_data (PyDict [(PyStr ''runs'', PyInt 2)]),
         Refresh_chat_data (PyInt 7) (PyDict [(PyStr ''title'', PyStr ''ops'')])], None) \<and>
   refresh_data example_app (fst (from_job example_job example_app)) = ([], None)"
proof -
  have g: "fst (chat_data_getitem app 7) = PyDict [(PyStr ''title'', PyStr ''ops'')]"
    if "app_chat_data app = app_chat_data example_app" for app
    using that by (simp add: example_app_def chat_data_getitem_def store_getitem_def case_prod_beta)
  have a: "application_slot (fst (from_job example_job app)) = PyApp" for app
    using from_job_other_slots[of example_job app] by simp
  have c: "chat_id_and_data (fst (from_job example_job app)) = PyNone \<or>
           chat_id_and_data (fst (from_job example_job app))
             = PyTuple [PyInt 7, PyDict [(PyStr ''title'', PyStr ''ops'')]]"
    if "app_chat_data app = app_chat_data example_app" for app
    by (simp add: from_job_chat_slot example_job_def g[OF that])
  have u: "user_id_and_data (fst (from_job example_job app)) = PyNone \<or>
           user_id_and_data (fst (from_job example_job app)) = PyTuple [PyNone, PyNone]" for app
    by (simp add: from_job_user_slot example_job_def)
  have s: "app_chat_data example_persistent_app = app_chat_data example_app"
    by (simp add: example_persistent_app_def)
  have n: "chat_id_and_data (fst (from_job example_job app)) \<noteq> PyNone"
    and m: "user_id_and_data (fst (from_job example_job app)) = PyNone" for app
    by (simp_all add: from_job_chat_slot from_job_user_slot example_job_def)
  have r1: "refresh_data example_persistent_app (fst (from_job example_job example_persistent_app))
     = ([Refresh_bot_data (PyDict [(PyStr ''runs'', PyInt 2)]),
         Refresh_chat_data (PyInt 7) (PyDict [(PyStr ''title'', PyStr ''ops'')])], None)"
    using refresh_data_hooks[OF a[of example_persistent_app] c[OF s] u[of example_persistent_app],
        of example_persistent_app] n m
    by (simp add: prod_eq_iff example_persistent_app_def example_app_def)
  have r2: "refresh_data example_app (fst (from_job example_job example_app)) = ([], None)"
    using refresh_data_hooks[OF a[of example_app] c[OF refl] u[of example_app], of example_app]
    by (simp add: prod_eq_iff example_app_def)
  from r1 r2 show ?thesis by blast
qed

section \<open>Dropping the data of a callback query\<close>

text \<open>
  C2. On a context that holds its application, \<^verbatim>\<open>drop_callback_data\<close> fails with
  \<^verbatim>\<open>RuntimeError\<close> (the spec's CapabilityError) when the bot is a plain bot, fails with
  \<^verbatim>\<open>RuntimeError\<close> when the bot is an \<^verbatim>\<open>ExtBot\<close> whose \<^verbatim>\<open>arbitrary_callback_data\<close> is off,
  and fails with \<^verbatim>\<open>KeyError\<close> (the spec's NotFoundError) when the token of the callback
  query is not in the query index of the cache. Otherwise it returns nothing and leaves
  the application with a cache in which the payload of the query is gone from the data
  index and every other payload is as before.
\<close>

theorem drop_callback_data_outcomes:
  assumes "application_slot self = PyApp"
  shows "(app_bot app = Bot \<longrightarrow> drop_callback_data app self q = Inl RuntimeError) \<and>
         (app_bot app = ExtBot False cache \<longrightarrow> drop_callback_data app self q = Inl RuntimeError) \<and>
         (app_bot app = ExtBot True cache \<and> query_index cache (id_CallbackQuery q) = None \<longrightarrow>
            drop_callback_data app self q = Inl KeyError) \<and>
         (app_bot app = ExtBot True cache \<and> query_index cache (id_CallbackQuery q) = Some key \<longrightarrow>
            (\<exists>cache'. drop_callback_data app self q = Inr (app\<lparr>app_bot := ExtBot True cache'\<rparr>) \<and>
               data_index cache' key = None \<and>
               (\<forall>k. k \<noteq> key \<longrightarrow> data_index cache' k = data_index cache k)))"
proof -
  have "\<exists>cache'. drop_callback_data app self q = Inr (app\<lparr>app_bot := ExtBot True cache'\<rparr>) \<and>
          data_index cache' key = None \<and>
          (\<forall>k. k \<noteq> key \<longrightarrow> data_index cache' k = data_index cache k)"
    if "app_bot app = ExtBot True cache" and "query_index cache (id_CallbackQuery q) = Some key"
  proof -
    let ?cache' = "cache\<lparr>data_index := (data_index cache)(key := None)\<rparr>"
    from that assms
    have "drop_callback_data app self q = Inr (app\<lparr>app_bot := ExtBot True ?cache'\<rparr>)"
      by (simp add: drop_callback_data_def bot_def app_getattr_def drop_data_def)
    moreover have "data_index ?cache' key = None"
      by simp
    moreover have "\<forall>k. k \<noteq> key \<longrightarrow> data_index ?cache' k = data_index cache k"
      by simp
    ultimately show ?thesis
      by blast
  qed
  moreover from assms
  have "app_bot app = Bot \<longrightarrow> drop_callback_data app self q = Inl RuntimeError"
    and "app_bot app = ExtBot False cache \<longrightarrow> drop_callback_data app self q = Inl RuntimeError"
    and "app_bot app = ExtBot True cache \<and> query_index cache (id_CallbackQuery q) = None \<longrightarrow>
           drop_callback_data app self q = Inl KeyError"
    by (simp_all add: drop_callback_data_def bot_def app_getattr_def drop_data_def)
  ultimately show ?thesis
    by blast
qed

theorem drop_callback_data_outcomes_witness:
  "drop_callback_data example_app (init PyApp) (CallbackQuery ''q1'') = Inl RuntimeError \<and>
   drop_callback_data (example_app\<lparr>app_bot := ExtBot False example_cache\<rparr>) (init PyApp)
     (CallbackQuery ''q1'') = Inl RuntimeError \<and>
   drop_callback_data example_ext_app (init PyApp) (CallbackQuery ''q2'') = Inl KeyError \<and>
   (\<exists>cache'. drop_callback_data example_ext_app (init PyApp) (CallbackQuery ''q1'')
        = Inr (example_ext_app\<lparr>app_bot := ExtBot True cache'\<rparr>) \<and>
      data_index cache' ''kb1'' = None)"
proof -
  have a: "application_slot (init PyApp) = PyApp"
    by (simp add: init_def)
  have b1: "app_bot example_app = Bot"
    by (simp add: example_app_def)
  have b2: "app_bot (example_app\<lparr>app_bot := ExtBot False example_cache\<rparr>) = ExtBot False example_cache"
    by simp
  have b3: "app_bot example_ext_app = ExtBot True example_cache"
    by (simp add: example_ext_app_def)
  have q2: "query_index example_cache (id_CallbackQuery (CallbackQuery ''q2'')) = None"
    and q1: "query_index example_cache (id_CallbackQuery (CallbackQuery ''q1'')) = Some ''kb1''"
    by (simp_all add: example_cache_def)
  from drop_callback_data_outcomes[OF a, where app="example_app" and cache=example_cache
      and q="CallbackQuery ''q1''" and key="''kb1''"] b1
  have r1: "drop_callback_data example_app (init PyApp) (CallbackQuery ''q1'') = Inl RuntimeError"
    by blast
  from drop_callback_data_outcomes[OF a, where app="example_app\<lparr>app_bot := ExtBot False example_cache\<rparr>" and cache=example_cache
      and q="CallbackQuery ''q1''" and key="''kb1''"] b2
  have r2: "drop_callback_data (example_app\<lparr>app_bot := ExtBot False example_cache\<rparr>) (init PyApp)
     (CallbackQuery ''q1'') = Inl RuntimeError"
    by blast
  from drop_callback_data_outcomes[OF a, where app="example_ext_app" and cache=example_cache
      and q="CallbackQuery ''q2''" and key="''kb1''"]
    b3 q2
  have r3: "drop_callback_data example_ext_app (init PyApp) (CallbackQuery ''q2'') = Inl KeyError"
    by blast
  from drop_callback_data_outcomes[OF a, where app="example_ext_app" and cache=example_cache
      and q="CallbackQuery ''q1''" and key="''kb1''"]
    b3 q1
  have r4: "\<exists>cache'. drop_callback_data example_ext_app (init PyApp) (CallbackQuery ''q1'')
        = Inr (example_ext_app\<lparr>app_bot := ExtBot True cache'\<rparr>) \<and>
      data_index cache' ''kb1'' = None"
    by blast
  from r1 r2 r3 r4 show ?thesis
    by blast
qed

end
